theory Spec2Isabelle
  imports Complex_Main "HOL-Library.Sublist" "HOL-Library.AList"
begin

section \<open>Python values used by the retrieval context engine\<close>

text \<open>
  Exceptions are values.  Every constructor stands for a subclass of Python's
  \<^verbatim>\<open>Exception\<close>, so each of them is caught by an \<^verbatim>\<open>except Exception\<close> clause.
  \<open>ExternalError\<close> is whatever an outside service (embedding model, language model,
  search index, PDF parser) raises.
\<close>

datatype error =
    TypeError string
  | ValueError string
  | KeyError string
  | ZeroDivisionError string
  | ExternalError string

fun str_error :: "error \<Rightarrow> string" where
  "str_error (TypeError m) = m"
| "str_error (ValueError m) = m"
| "str_error (KeyError m) = m"
| "str_error (ZeroDivisionError m) = m"
| "str_error (ExternalError m) = m"

text \<open>
  A Python \<^verbatim>\<open>str\<close> is modelled as a \<open>string\<close> whose characters are the code points
  below 256.  \<open>is_space\<close> is \<^verbatim>\<open>str.isspace\<close> on one such character: tab, line feed,
  vertical tab, form feed, carriage return, the four separators 0x1C..0x1F, space,
  NEL (0x85) and the no-break space (0xA0).
\<close>

definition is_space :: "char \<Rightarrow> bool" where
  "is_space c = (of_char c \<in> {9, 10, 11, 12, 13, 28, 29, 30, 31, 32, 133, 160 :: nat})"

definition strip :: "string \<Rightarrow> string" where
  "strip s = rev (dropWhile is_space (rev (dropWhile is_space s)))"

text \<open>
  Slices \<^verbatim>\<open>xs[i:j]\<close>, \<^verbatim>\<open>xs[i:]\<close> and \<^verbatim>\<open>xs[:j]\<close>: a negative bound counts from the end,
  and every bound is clamped into \<open>0..len(xs)\<close>.
\<close>

definition py_bound :: "nat \<Rightarrow> int \<Rightarrow> nat" where
  "py_bound n i = (if i < 0 then nat (max 0 (int n + i)) else min n (nat i))"

definition py_slice :: "'a list \<Rightarrow> int \<Rightarrow> int \<Rightarrow> 'a list" where
  "py_slice xs i j =
     (let lo = py_bound (length xs) i; hi = py_bound (length xs) j
      in take (hi - lo) (drop lo xs))"

definition slice_from :: "'a list \<Rightarrow> int \<Rightarrow> 'a list" where
  "slice_from xs i = drop (py_bound (length xs) i) xs"

definition slice_to :: "'a list \<Rightarrow> int \<Rightarrow> 'a list" where
  "slice_to xs j = take (py_bound (length xs) j) xs"

text \<open>\<^verbatim>\<open>s.rfind(sub)\<close>: the highest index at which \<open>sub\<close> starts in \<open>s\<close>, or \<open>-1\<close>.\<close>

definition rfind :: "string \<Rightarrow> string \<Rightarrow> int" where
  "rfind s sub =
     (case filter (\<lambda>i. prefix sub (drop i s)) (rev [0..<Suc (length s)]) of
        [] \<Rightarrow> - 1
      | i # _ \<Rightarrow> int i)"

text \<open>\<^verbatim>\<open>sub in s\<close> on strings.\<close>

fun contains :: "string \<Rightarrow> string \<Rightarrow> bool" where
  "contains [] sub = (sub = [])"
| "contains (c # cs) sub = (prefix sub (c # cs) \<or> contains cs sub)"

text \<open>\<^verbatim>\<open>sep.join(parts)\<close>.\<close>

fun join :: "string \<Rightarrow> string list \<Rightarrow> string" where
  "join sep [] = []"
| "join sep [p] = p"
| "join sep (p # q # ps) = p @ sep @ join sep (q # ps)"

text \<open>\<^verbatim>\<open>str(n)\<close> for an integer: decimal digits, with a leading minus sign.\<close>

definition digit_char :: "nat \<Rightarrow> char" where
  "digit_char d = ''0123456789'' ! d"

fun str_nat :: "nat \<Rightarrow> string" where
  "str_nat n = (if n < 10 then [digit_char n] else str_nat (n div 10) @ [digit_char (n mod 10)])"

declare str_nat.simps [simp del]

definition str_int :: "int \<Rightarrow> string" where
  "str_int i = (if i < 0 then CHR ''-'' # str_nat (nat (- i)) else str_nat (nat i))"

section \<open>ChunkSegmenter: \<^verbatim>\<open>DocumentProcessor\<close>\<close>

text \<open>
  \<^verbatim>\<open>_find_sentence_boundary(text, start, end)\<close>: the delimiters are tried in the order of
  the source's list; the first one that occurs in the last fifth of the window decides.
\<close>

definition delimiters :: "string list" where
  "delimiters =
     [[CHR ''.'', CHR '' ''], [CHR ''.'', CHR 0x0A],
      [CHR ''!'', CHR '' ''], [CHR ''!'', CHR 0x0A],
      [CHR ''?'', CHR '' ''], [CHR ''?'', CHR 0x0A]]"

fun first_boundary :: "string \<Rightarrow> int \<Rightarrow> int \<Rightarrow> string list \<Rightarrow> int" where
  "first_boundary search_text search_start end [] = end"
| "first_boundary search_text search_start end (delimiter # ds) =
     (let pos = rfind search_text delimiter
      in if pos \<noteq> - 1 then search_start + pos + int (length delimiter)
         else first_boundary search_text search_start end ds)"

definition find_sentence_boundary :: "int \<Rightarrow> string \<Rightarrow> int \<Rightarrow> int \<Rightarrow> int" where
  "find_sentence_boundary chunk_size text start end =
     (let search_start = end - (chunk_size div 5);
          search_text = py_slice text search_start end
      in first_boundary search_text search_start end delimiters)"

text \<open>
  The message Python 3 attaches to the \<^verbatim>\<open>TypeError\<close> of an order comparison between
  an \<^verbatim>\<open>int\<close> and a \<^verbatim>\<open>str\<close>.
\<close>

definition le_int_str_message :: string where
  "le_int_str_message =
     [CHR 0x27] @ ''<='' @ [CHR 0x27] @ '' not supported between instances of ''
       @ [CHR 0x27] @ ''int'' @ [CHR 0x27] @ '' and '' @ [CHR 0x27] @ ''str'' @ [CHR 0x27]"

text \<open>
  The \<^verbatim>\<open>while\<close> loop of \<^verbatim>\<open>_chunk_text\<close>, one call per iteration; \<open>None\<close> is a loop that
  never ends.  The guard of the source is
  \<^verbatim>\<open>if start <= chunks[-1] if chunks else False:\<close>, which Python reads as
  \<^verbatim>\<open>if ((start <= chunks[-1]) if chunks else False):\<close>.  With \<open>chunks\<close> empty its value is
  \<open>False\<close>.  With \<open>chunks\<close> non-empty it compares the integer \<open>start\<close> with the string
  \<open>chunks[-1]\<close>, and in Python 3 that comparison raises \<^verbatim>\<open>TypeError\<close>; the assignment
  \<^verbatim>\<open>start = end\<close> under the guard is therefore never reached.
\<close>

partial_function (option) chunk_loop ::
  "int \<Rightarrow> int \<Rightarrow> string \<Rightarrow> int \<Rightarrow> string list \<Rightarrow> (error + string list) option"
where
  "chunk_loop chunk_size chunk_overlap text start chunks =
     (if start < int (length text) then
        (let end0 = start + chunk_size;
             end = (if end0 < int (length text)
                    then (let sentence_end = find_sentence_boundary chunk_size text start end0
                          in if sentence_end > start then sentence_end else end0)
                    else end0);
             chunk = strip (py_slice text start end);
             chunks' = (if chunk \<noteq> [] then chunks @ [chunk] else chunks);
             start' = end - chunk_overlap
         in if chunks' \<noteq> [] then Some (Inl (TypeError le_int_str_message))
            else chunk_loop chunk_size chunk_overlap text start' chunks')
      else Some (Inr chunks))"

declare chunk_loop.simps [code]

definition chunk_text :: "int \<Rightarrow> int \<Rightarrow> string \<Rightarrow> (error + string list) option" where
  "chunk_text chunk_size chunk_overlap text0 =
     (let text = strip text0
      in if int (length text) \<le> chunk_size then Some (Inr [text])
         else chunk_loop chunk_size chunk_overlap text 0 [])"

text \<open>
  \<^verbatim>\<open>estimate_chunks\<close>: the floor division raises when \<^verbatim>\<open>chunk_size\<close> equals
  \<^verbatim>\<open>chunk_overlap\<close>.
\<close>

definition estimate_chunks :: "int \<Rightarrow> int \<Rightarrow> int \<Rightarrow> error + int" where
  "estimate_chunks chunk_size chunk_overlap content_length =
     (if content_length \<le> chunk_size then Inr 1
      else (let effective_chunk_size = chunk_size - chunk_overlap
            in if effective_chunk_size = 0
               then Inl (ZeroDivisionError ''integer division or modulo by zero'')
               else Inr ((content_length + effective_chunk_size - 1) div effective_chunk_size)))"

text \<open>
  The chunk dictionaries built by \<^verbatim>\<open>process_text_file\<close> and \<^verbatim>\<open>process_pdf_file\<close>:
  keys \<^verbatim>\<open>chunk_index\<close>, \<^verbatim>\<open>content\<close>, \<^verbatim>\<open>page_number\<close> and \<^verbatim>\<open>metadata\<close>, the last one a
  dictionary with \<^verbatim>\<open>filename\<close> and, for a PDF, \<^verbatim>\<open>total_pages\<close>.
\<close>

record chunk_dict =
  chunk_index :: nat
  chunk_content :: string
  chunk_page_number :: "nat option"
  meta_filename :: string
  meta_total_pages :: "nat option"

text \<open>The entries of \<^verbatim>\<open>page_texts\<close>: keys \<^verbatim>\<open>page_number\<close> and \<^verbatim>\<open>text\<close>.\<close>

record page_info =
  info_page_number :: nat
  info_text :: string

definition page_marker :: "nat \<Rightarrow> string" where
  "page_marker n = ''[Page '' @ str_nat n @ '']''"

fun estimate_page_number :: "string \<Rightarrow> page_info list \<Rightarrow> nat option" where
  "estimate_page_number chunk [] = None"
| "estimate_page_number chunk (page_info # page_texts) =
     (if contains chunk (page_marker (info_page_number page_info)) then Some (info_page_number page_info)
      else estimate_page_number chunk page_texts)"

text \<open>
  \<^verbatim>\<open>process_text_file\<close>, on the decoded text.  Its \<^verbatim>\<open>except Exception\<close> clause turns
  every exception of the body into the empty list.
\<close>

definition process_text_file :: "int \<Rightarrow> int \<Rightarrow> string \<Rightarrow> string \<Rightarrow> chunk_dict list option" where
  "process_text_file chunk_size chunk_overlap text filename =
     (case chunk_text chunk_size chunk_overlap text of
        None \<Rightarrow> None
      | Some (Inl e) \<Rightarrow> Some []
      | Some (Inr chunks) \<Rightarrow>
          Some (map (\<lambda>(i, chunk).
                  \<lparr>chunk_index = i, chunk_content = chunk, chunk_page_number = None,
                   meta_filename = filename, meta_total_pages = None\<rparr>)
                (zip [0..<length chunks] chunks)))"

text \<open>
  The page loop of \<^verbatim>\<open>process_pdf_file\<close>.  A page is the outcome of its
  \<^verbatim>\<open>extract_text()\<close>: \<open>Inl\<close> when the call raises, \<open>Inr\<close> the text otherwise.  The
  state of the loop is \<open>(full_text, page_texts)\<close>; pages are numbered from
  \<open>page_num\<close>.  A page that raises is logged and skipped (\<^verbatim>\<open>continue\<close>).
\<close>

fun extract_pages ::
  "nat \<Rightarrow> (error + string) list \<Rightarrow> string \<times> page_info list \<Rightarrow> string \<times> page_info list"
where
  "extract_pages page_num [] acc = acc"
| "extract_pages page_num (page # pages) (full_text, page_texts) =
     (case page of
        Inl e \<Rightarrow> extract_pages (Suc page_num) pages (full_text, page_texts)
      | Inr page_text \<Rightarrow>
          if page_text \<noteq> [] then
            extract_pages (Suc page_num) pages
              (full_text @ [CHR 0x0A, CHR 0x0A] @ page_marker page_num @ [CHR 0x0A] @ page_text,
               page_texts @ [\<lparr>info_page_number = page_num, info_text = page_text\<rparr>])
          else extract_pages (Suc page_num) pages (full_text, page_texts))"

text \<open>
  \<^verbatim>\<open>process_pdf_file\<close>.  \<open>reader\<close> is the outcome of \<^verbatim>\<open>PdfReader(pdf_file)\<close>: \<open>Inl\<close> when
  the parser raises, \<open>Inr\<close> the list of pages otherwise.  An exception of the body is
  re-raised as \<^verbatim>\<open>ValueError\<close>; a document without text returns the empty list.
\<close>

definition process_pdf_file ::
  "int \<Rightarrow> int \<Rightarrow> bool \<Rightarrow> error + (error + string) list \<Rightarrow> string
     \<Rightarrow> (error + chunk_dict list) option"
where
  "process_pdf_file chunk_size chunk_overlap pdf_available reader filename =
     (if \<not> pdf_available
      then Some (Inl (ValueError ''PDF processing not available. Install pypdf package.''))
      else case reader of
        Inl e \<Rightarrow> Some (Inl (ValueError (''Failed to process PDF: '' @ str_error e)))
      | Inr pages \<Rightarrow>
          (let (full_text, page_texts) = extract_pages 1 pages ([], [])
           in if strip full_text = [] then Some (Inr [])
              else case chunk_text chunk_size chunk_overlap (strip full_text) of
                None \<Rightarrow> None
              | Some (Inl e) \<Rightarrow> Some (Inl (ValueError (''Failed to process PDF: '' @ str_error e)))
              | Some (Inr chunks) \<Rightarrow>
                  Some (Inr (map (\<lambda>(i, chunk).
                          \<lparr>chunk_index = i, chunk_content = chunk,
                           chunk_page_number = estimate_page_number chunk page_texts,
                           meta_filename = filename,
                           meta_total_pages = Some (length pages)\<rparr>)
                        (zip [0..<length chunks] chunks)))))"

section \<open>TokenBudgetEstimator and ContextOptimizer: \<^verbatim>\<open>ContextManager\<close>\<close>

datatype MessageRole = USER | ASSISTANT | SYSTEM

fun role_value :: "MessageRole \<Rightarrow> string" where
  "role_value USER = ''user''"
| "role_value ASSISTANT = ''assistant''"
| "role_value SYSTEM = ''system''"

record message =
  role :: MessageRole
  content :: string
  timestamp :: int
  metadata :: "(string \<times> string) list option"

text \<open>
  The fields of a \<^verbatim>\<open>ContextManager\<close>.  \<open>encode\<close> is the tokenizer
  (\<^verbatim>\<open>self.encoding.encode\<close>), a total function.
\<close>

record context_manager =
  encode :: "string \<Rightarrow> nat list"
  max_tokens :: int
  compression_threshold :: int

definition count_tokens :: "context_manager \<Rightarrow> string \<Rightarrow> int" where
  "count_tokens self text = int (length (encode self text))"

fun count_messages_tokens :: "context_manager \<Rightarrow> message list \<Rightarrow> int" where
  "count_messages_tokens self [] = 0"
| "count_messages_tokens self (m # messages) =
     count_tokens self (role_value (role m)) + count_tokens self (content m) + 4
       + count_messages_tokens self messages"

text \<open>
  The request sent to the language model by \<^verbatim>\<open>_summarize_messages\<close>, and the
  summarization itself: when the call raises, the summary is built from the first three
  messages, each cut to 50 characters.
\<close>

record llm_request =
  system_content :: string
  user_content :: string
  request_max_tokens :: int

definition upper :: "string \<Rightarrow> string" where
  "upper s = map (\<lambda>c. if 97 \<le> (of_char c :: nat) \<and> (of_char c :: nat) \<le> 122
                       then char_of ((of_char c :: nat) - 32) else c) s"

definition summarize_messages ::
  "(llm_request \<Rightarrow> error + string) \<Rightarrow> message list \<Rightarrow> int \<Rightarrow> string"
where
  "summarize_messages chat messages max_tok =
     (let conversation_text =
            join [CHR 0x0A] (map (\<lambda>msg. upper (role_value (role msg)) @ '': '' @ content msg) messages)
      in case chat \<lparr>system_content =
                      ''Summarize the following conversation concisely, ''
                      @ ''preserving key information, questions asked, and important context. ''
                      @ ''Keep the summary under '' @ str_int max_tok @ '' tokens.'',
                    user_content = conversation_text,
                    request_max_tokens = max_tok\<rparr> of
           Inr summary \<Rightarrow> summary
         | Inl e \<Rightarrow>
             ''Earlier conversation covered: ''
             @ join '', '' (map (\<lambda>msg. slice_to (content msg) 50) (slice_to messages 3))
             @ ''...'')"

text \<open>
  \<^verbatim>\<open>_compress_context\<close>.  The cut position \<^verbatim>\<open>int(len(context) * ratio * 0.9)\<close> with
  \<^verbatim>\<open>ratio = max_tokens / current_tokens\<close> is computed in double precision floating
  point; it is the parameter \<open>truncate_at\<close>, a function of \<^verbatim>\<open>len(context)\<close>,
  \<^verbatim>\<open>max_tokens\<close> and \<^verbatim>\<open>current_tokens\<close>.  The division raises when
  \<^verbatim>\<open>current_tokens\<close> is zero.
\<close>

definition compress_context ::
  "context_manager \<Rightarrow> (nat \<Rightarrow> int \<Rightarrow> int \<Rightarrow> int) \<Rightarrow> string \<Rightarrow> int \<Rightarrow> error + string"
where
  "compress_context self truncate_at context max_tok =
     (let current_tokens = count_tokens self context
      in if current_tokens \<le> max_tok then Inr context
         else if current_tokens = 0 then Inl (ZeroDivisionError ''division by zero'')
         else Inr (slice_to context (truncate_at (length context) max_tok current_tokens)
                   @ ''...'' @ [CHR 0x0A] @ ''[Context truncated due to length]''))"

text \<open>\<^verbatim>\<open>x or ""\<close> and the truth value of an optional string.\<close>

fun or_empty :: "string option \<Rightarrow> string" where
  "or_empty None = []"
| "or_empty (Some s) = s"

fun truthy :: "string option \<Rightarrow> bool" where
  "truthy None = False"
| "truthy (Some s) = (s \<noteq> [])"

text \<open>
  The local variables of \<^verbatim>\<open>optimize_context\<close>, each as a function of the arguments:
  \<^verbatim>\<open>recent_messages\<close>, \<^verbatim>\<open>older_messages\<close>, \<^verbatim>\<open>recent_tokens\<close>, \<^verbatim>\<open>additional_tokens\<close> and
  \<^verbatim>\<open>available_tokens\<close>.
\<close>

definition recent_messages :: "message list \<Rightarrow> int \<Rightarrow> message list" where
  "recent_messages messages preserve_recent =
     (if int (length messages) > preserve_recent
      then slice_from messages (- preserve_recent) else messages)"

definition older_messages :: "message list \<Rightarrow> int \<Rightarrow> message list" where
  "older_messages messages preserve_recent =
     (if int (length messages) > preserve_recent
      then slice_to messages (- preserve_recent) else [])"

definition recent_tokens :: "context_manager \<Rightarrow> message list \<Rightarrow> int \<Rightarrow> int" where
  "recent_tokens self messages preserve_recent =
     count_messages_tokens self (recent_messages messages preserve_recent)"

definition additional_tokens :: "context_manager \<Rightarrow> string option \<Rightarrow> int" where
  "additional_tokens self additional_context =
     (if truthy additional_context then count_tokens self (or_empty additional_context) else 0)"

definition available_tokens :: "context_manager \<Rightarrow> message list \<Rightarrow> string option \<Rightarrow> int \<Rightarrow> int" where
  "available_tokens self messages additional_context preserve_recent =
     max_tokens self - recent_tokens self messages preserve_recent
       - additional_tokens self additional_context"

text \<open>
  The three values \<^verbatim>\<open>optimize_context\<close> fixes before its compression step:
  \<^verbatim>\<open>optimized_messages\<close>, \<^verbatim>\<open>context_summary\<close> and \<^verbatim>\<open>total_tokens\<close>.
\<close>

definition select_messages ::
  "context_manager \<Rightarrow> (llm_request \<Rightarrow> error + string) \<Rightarrow> message list \<Rightarrow> string option \<Rightarrow> int
     \<Rightarrow> message list \<times> string \<times> int"
where
  "select_messages self chat messages additional_context preserve_recent =
     (let recent = recent_messages messages preserve_recent;
          older = older_messages messages preserve_recent;
          available = available_tokens self messages additional_context preserve_recent
      in if available > 0 \<and> older \<noteq> [] then
           (let older_tokens = count_messages_tokens self older
            in if older_tokens \<le> available
               then (messages, [],
                     recent_tokens self messages preserve_recent + older_tokens
                       + additional_tokens self additional_context)
               else (let summary = summarize_messages chat older (available div 2)
                     in (recent,
                         ''Previous conversation summary: '' @ summary @ [CHR 0x0A, CHR 0x0A],
                         recent_tokens self messages preserve_recent + count_tokens self summary
                           + additional_tokens self additional_context)))
         else (recent, [],
               recent_tokens self messages preserve_recent
                 + additional_tokens self additional_context))"

definition optimize_context ::
  "context_manager \<Rightarrow> (llm_request \<Rightarrow> error + string) \<Rightarrow> (nat \<Rightarrow> int \<Rightarrow> int \<Rightarrow> int)
     \<Rightarrow> message list \<Rightarrow> string option \<Rightarrow> int \<Rightarrow> error + message list \<times> string \<times> int"
where
  "optimize_context self chat truncate_at messages additional_context preserve_recent =
     (if messages = [] then Inr ([], or_empty additional_context, 0)
      else
        (let (optimized_messages, context_summary, total_tokens) =
               select_messages self chat messages additional_context preserve_recent
         in if total_tokens > max_tokens self \<and> truthy additional_context then
              (case compress_context self truncate_at (or_empty additional_context)
                      (max_tokens self - count_messages_tokens self optimized_messages) of
                 Inl e \<Rightarrow> Inl e
               | Inr compressed_context \<Rightarrow>
                   Inr (optimized_messages,
                        context_summary @ compressed_context,
                        count_messages_tokens self optimized_messages
                          + count_tokens self compressed_context))
            else Inr (optimized_messages, context_summary @ or_empty additional_context,
                      total_tokens)))"

definition should_compress :: "context_manager \<Rightarrow> int \<Rightarrow> bool" where
  "should_compress self current_tokens = (current_tokens \<ge> compression_threshold self)"

section \<open>RetrievalCoordinator: \<^verbatim>\<open>HybridSearchEngine.hybrid_search\<close>\<close>

datatype SearchStrategy = KEYWORD | SEMANTIC | HYBRID

text \<open>
  The \<^verbatim>\<open>search_params\<close> dictionary, in insertion order; assigning to a key that is
  present replaces its value in place.
\<close>

datatype param_value = PStr string | PInt int

type_synonym search_params = "(string \<times> param_value) list"

text \<open>
  What the index answers: a dictionary that may have a \<^verbatim>\<open>hits\<close> list; every hit may
  have a \<^verbatim>\<open>document\<close>, a \<^verbatim>\<open>vector_distance\<close> and a \<^verbatim>\<open>text_match\<close>.  A field read
  with \<^verbatim>\<open>d[key]\<close> raises \<^verbatim>\<open>KeyError\<close> when it is absent, a field read with \<^verbatim>\<open>d.get\<close>
  does not.  Scores are numbers, compared and copied only.
\<close>

record hit_document =
  doc_id :: "string option"
  doc_document_id :: "string option"
  doc_document_name :: "string option"
  doc_content :: "string option"
  doc_chunk_index :: "int option"
  doc_page_number :: "int option"

record hit =
  hit_document :: "hit_document option"
  vector_distance :: "real option"
  text_match :: "real option"

record search_response =
  hits :: "hit list option"

record retrieval_result =
  res_chunk_id :: string
  res_document_id :: string
  res_document_name :: string
  res_content :: string
  res_chunk_index :: int
  res_page_number :: "int option"
  relevance_score :: real
  text_match_score :: real

definition getitem :: "string \<Rightarrow> 'a option \<Rightarrow> error + 'a" where
  "getitem key field = (case field of None \<Rightarrow> Inl (KeyError key) | Some v \<Rightarrow> Inr v)"

definition get_or :: "'a option \<Rightarrow> 'a \<Rightarrow> 'a" where
  "get_or field dflt = (case field of None \<Rightarrow> dflt | Some v \<Rightarrow> v)"

definition format_hit :: "hit \<Rightarrow> error + retrieval_result" where
  "format_hit h =
     (case getitem ''document'' (hit_document h) of Inl e \<Rightarrow> Inl e | Inr doc \<Rightarrow>
      case getitem ''id'' (doc_id doc) of Inl e \<Rightarrow> Inl e | Inr cid \<Rightarrow>
      case getitem ''document_id'' (doc_document_id doc) of Inl e \<Rightarrow> Inl e | Inr did \<Rightarrow>
      case getitem ''document_name'' (doc_document_name doc) of Inl e \<Rightarrow> Inl e | Inr dname \<Rightarrow>
      case getitem ''content'' (doc_content doc) of Inl e \<Rightarrow> Inl e | Inr c \<Rightarrow>
        Inr \<lparr>res_chunk_id = cid, res_document_id = did, res_document_name = dname,
             res_content = c,
             res_chunk_index = get_or (doc_chunk_index doc) 0,
             res_page_number = doc_page_number doc,
             relevance_score = get_or (vector_distance h) (get_or (text_match h) 0),
             text_match_score = get_or (text_match h) 0\<rparr>)"

fun format_hits :: "hit list \<Rightarrow> error + retrieval_result list" where
  "format_hits [] = Inr []"
| "format_hits (h # hs) =
     (case format_hit h of
        Inl e \<Rightarrow> Inl e
      | Inr r \<Rightarrow> (case format_hits hs of Inl e \<Rightarrow> Inl e | Inr rs \<Rightarrow> Inr (r # rs)))"

text \<open>
  The dictionary sent to the index.  \<open>str_float\<close> is \<^verbatim>\<open>str\<close> on a float, a parameter.
\<close>

definition vector_query_text :: "(real \<Rightarrow> string) \<Rightarrow> real list \<Rightarrow> string" where
  "vector_query_text str_float query_embedding =
     ''embedding:(['' @ join '','' (map str_float query_embedding) @ '']''"

definition build_search_params ::
  "(real \<Rightarrow> string) \<Rightarrow> string \<Rightarrow> SearchStrategy \<Rightarrow> int \<Rightarrow> real \<Rightarrow> string option \<Rightarrow> real list
     \<Rightarrow> search_params"
where
  "build_search_params str_float query strategy max_results semantic_weight document_filter
       query_embedding =
     (let search_params0 =
            [(''q'', PStr query),
             (''query_by'', PStr ''content''),
             (''per_page'', PInt max_results),
             (''include_fields'',
              PStr ''id,document_id,document_name,content,chunk_index,page_number'')];
          search_params =
            (if truthy document_filter
             then AList.update ''filter_by''
                    (PStr (''document_id:='' @ or_empty document_filter)) search_params0
             else search_params0)
      in case strategy of
           KEYWORD \<Rightarrow> AList.update ''query_by_weights'' (PStr ''1'') search_params
         | SEMANTIC \<Rightarrow>
             AList.update ''q'' (PStr ''*'')
               (AList.update ''vector_query''
                  (PStr (vector_query_text str_float query_embedding
                         @ '', k:'' @ str_int max_results @ '')''))
                  search_params)
         | HYBRID \<Rightarrow>
             AList.update ''vector_query''
               (PStr (vector_query_text str_float query_embedding
                      @ '', k:'' @ str_int max_results
                      @ '', alpha:'' @ str_float semantic_weight @ '')''))
               search_params)"

text \<open>
  The calls made to the two collaborators, in order: the embedding service
  (\<^verbatim>\<open>openai_client.embeddings.create\<close> with the query as input) and the index
  (\<^verbatim>\<open>documents.search\<close> with the parameters).
\<close>

datatype call = EmbeddingsCreate string | DocumentsSearch search_params

text \<open>
  The body of the \<^verbatim>\<open>try\<close> block, with the calls it has made.  The embedding is requested
  first, for every strategy.
\<close>

definition hybrid_search_body ::
  "(string \<Rightarrow> error + real list) \<Rightarrow> (search_params \<Rightarrow> error + search_response)
     \<Rightarrow> (real \<Rightarrow> string) \<Rightarrow> string \<Rightarrow> SearchStrategy \<Rightarrow> int \<Rightarrow> real \<Rightarrow> real \<Rightarrow> string option
     \<Rightarrow> (error + retrieval_result list) \<times> call list"
where
  "hybrid_search_body embeddings_create documents_search str_float query strategy max_results keyword_weight
       semantic_weight document_filter =
     (case embeddings_create query of
        Inl e \<Rightarrow> (Inl e, [EmbeddingsCreate query])
      | Inr query_embedding \<Rightarrow>
          (let search_params =
                 build_search_params str_float query strategy max_results semantic_weight
                   document_filter query_embedding;
               calls = [EmbeddingsCreate query, DocumentsSearch search_params]
           in case documents_search search_params of
                Inl e \<Rightarrow> (Inl e, calls)
              | Inr results \<Rightarrow> (format_hits (get_or (hits results) []), calls)))"

text \<open>
  \<^verbatim>\<open>hybrid_search\<close>: the \<^verbatim>\<open>except Exception\<close> clause logs the exception and returns the
  empty list.
\<close>

definition hybrid_search ::
  "(string \<Rightarrow> error + real list) \<Rightarrow> (search_params \<Rightarrow> error + search_response)
     \<Rightarrow> (real \<Rightarrow> string) \<Rightarrow> string \<Rightarrow> SearchStrategy \<Rightarrow> int \<Rightarrow> real \<Rightarrow> real \<Rightarrow> string option
     \<Rightarrow> (error + retrieval_result list) \<times> call list"
where
  "hybrid_search embeddings_create documents_search str_float query strategy max_results keyword_weight
       semantic_weight document_filter =
     (case hybrid_search_body embeddings_create documents_search str_float query strategy max_results keyword_weight
             semantic_weight document_filter of
        (Inl e, calls) \<Rightarrow> (Inr [], calls)
      | (Inr formatted_results, calls) \<Rightarrow> (Inr formatted_results, calls))"

section \<open>Concrete inputs\<close>

text \<open>A text of 501 letters, one more than the default \<^verbatim>\<open>chunk_size\<close> of 500.\<close>

definition long_text :: string where
  "long_text = replicate 501 CHR ''a''"

text \<open>
  A text of 1200 characters: eleven sentences of 98 letters, a period and a space,
  followed by 100 letters.
\<close>

definition sample_text :: string where
  "sample_text =
     concat (replicate 11 (replicate 98 CHR ''a'' @ ''. '')) @ replicate 100 CHR ''a''"

text \<open>
  Three pages, the second of which cannot be read; a document none of whose pages can be
  read; and a document whose only page holds a space and a line feed.
\<close>

definition mixed_pages :: "(error + string) list" where
  "mixed_pages = [Inr ''Hello'', Inl (ExternalError ''unreadable page''), Inr ''World'']"

definition blank_pages :: "(error + string) list" where
  "blank_pages = [Inr [CHR '' '', CHR 0x0A]]"

definition failing_pages :: "(error + string) list" where
  "failing_pages = [Inl (ExternalError ''unreadable page''), Inl (ExternalError ''unreadable page'')]"

text \<open>
  A tokenizer with one token per character, a manager with a given budget, and four user
  messages; each message counts 4 + 2 + 4 = 10 tokens.
\<close>

definition char_tokens :: "string \<Rightarrow> nat list" where
  "char_tokens text = map of_char text"

definition manager :: "int \<Rightarrow> context_manager" where
  "manager m = \<lparr>encode = char_tokens, max_tokens = m, compression_threshold = 3000\<rparr>"

definition user_message :: "string \<Rightarrow> int \<Rightarrow> message" where
  "user_message c t = \<lparr>role = USER, content = c, timestamp = t, metadata = None\<rparr>"

definition four_messages :: "message list" where
  "four_messages =
     [user_message ''m1'' 1, user_message ''m2'' 2, user_message ''m3'' 3, user_message ''m4'' 4]"

text \<open>A language model that is down, and one that answers.\<close>

definition chat_down :: "llm_request \<Rightarrow> error + string" where
  "chat_down request = Inl (ExternalError ''service unavailable'')"

definition chat_fixed :: "llm_request \<Rightarrow> error + string" where
  "chat_fixed request = Inr ''SUMMARY''"

text \<open>
  A stand-in for the cut position of \<^verbatim>\<open>_compress_context\<close>: the position in exact
  arithmetic, rounded towards zero.  The code computes it in double precision and can
  differ from it by one.  None of the runs below reaches the compression step, so each of
  them gives the same result with any other cut function.
\<close>

definition truncate_at_exact :: "nat \<Rightarrow> int \<Rightarrow> int \<Rightarrow> int" where
  "truncate_at_exact n max_tok current_tokens =
     (if max_tok \<ge> 0 then (9 * int n * max_tok) div (10 * current_tokens)
      else - ((9 * int n * (- max_tok)) div (10 * current_tokens)))"

text \<open>
  An embedding service that answers, one that is down, a rendering of the two floats of
  the embedding, and an index with two hits at distances 0.1 and 0.5 (nearest first), an
  index with one lexical hit, and an index that is down.
\<close>

definition embed_ok :: "string \<Rightarrow> error + real list" where
  "embed_ok input = Inr [1 / 4, 1 / 2]"

definition embed_down :: "string \<Rightarrow> error + real list" where
  "embed_down input = Inl (ExternalError ''embedding service unavailable'')"

definition str_float_sample :: "real \<Rightarrow> string" where
  "str_float_sample x = (if x = 1 / 4 then ''0.25'' else if x = 1 / 2 then ''0.5'' else ''0.0'')"

definition sample_document :: "string \<Rightarrow> hit_document" where
  "sample_document cid =
     \<lparr>doc_id = Some cid, doc_document_id = Some ''doc-1'', doc_document_name = Some ''a.txt'',
      doc_content = Some ''text'', doc_chunk_index = Some 0, doc_page_number = None\<rparr>"

definition semantic_hits :: "hit list" where
  "semantic_hits =
     [\<lparr>hit_document = Some (sample_document ''near''), vector_distance = Some (1 / 10),
       text_match = None\<rparr>,
      \<lparr>hit_document = Some (sample_document ''far''), vector_distance = Some (1 / 2),
       text_match = None\<rparr>]"

definition keyword_hits :: "hit list" where
  "keyword_hits =
     [\<lparr>hit_document = Some (sample_document ''k1''), vector_distance = None,
       text_match = Some 7\<rparr>]"

definition index_semantic :: "search_params \<Rightarrow> error + search_response" where
  "index_semantic params = Inr \<lparr>hits = Some semantic_hits\<rparr>"

definition index_keyword :: "search_params \<Rightarrow> error + search_response" where
  "index_keyword params = Inr \<lparr>hits = Some keyword_hits\<rparr>"

definition index_down :: "search_params \<Rightarrow> error + search_response" where
  "index_down params = Inl (ExternalError ''index unavailable'')"

text \<open>The results that \<^verbatim>\<open>hybrid_search\<close> builds from these hits.\<close>

definition semantic_results :: "retrieval_result list" where
  "semantic_results =
     [\<lparr>res_chunk_id = ''near'', res_document_id = ''doc-1'', res_document_name = ''a.txt'',
       res_content = ''text'', res_chunk_index = 0, res_page_number = None,
       relevance_score = 1 / 10, text_match_score = 0\<rparr>,
      \<lparr>res_chunk_id = ''far'', res_document_id = ''doc-1'', res_document_name = ''a.txt'',
       res_content = ''text'', res_chunk_index = 0, res_page_number = None,
       relevance_score = 1 / 2, text_match_score = 0\<rparr>]"


section \<open>Properties of the chunker\<close>

lemma strip_Nil_iff: "strip s = [] \<longleftrightarrow> (\<forall>c \<in> set s. is_space c)"
proof
  assume "strip s = []"
  then have a: "\<forall>x \<in> set (dropWhile is_space s). is_space x"
    by (simp add: strip_def)
  have "dropWhile is_space s = []"
  proof (rule ccontr)
    assume n: "dropWhile is_space s \<noteq> []"
    then have "\<not> is_space (hd (dropWhile is_space s))" by (rule hd_dropWhile)
    moreover have "hd (dropWhile is_space s) \<in> set (dropWhile is_space s)" using n by simp
    ultimately show False using a by blast
  qed
  then show "\<forall>c \<in> set s. is_space c" by simp
next
  assume "\<forall>c \<in> set s. is_space c"
  then show "strip s = []" by (auto simp: strip_def dest: set_dropWhileD)
qed

lemma hd_strip:
  assumes "strip s \<noteq> []"
  shows "\<not> is_space (hd (strip s))"
proof -
  let ?d = "dropWhile is_space s"
  have d: "?d \<noteq> []" using assms by (simp add: strip_Nil_iff)
  then have h: "\<not> is_space (hd ?d)" by (rule hd_dropWhile)
  have l: "last (rev ?d) = hd ?d" using d by (simp add: last_rev)
  have "rev ?d \<noteq> []" using d by simp
  then have m: "last (rev ?d) \<in> set (rev ?d)" by (rule last_in_set)
  have "last (dropWhile is_space (rev ?d)) = last (rev ?d)"
    using m h l by (simp add: dropWhile_last)
  moreover have "dropWhile is_space (rev ?d) \<noteq> []" using assms by (simp add: strip_def)
  ultimately have "hd (strip s) = hd ?d"
    using l by (simp add: strip_def hd_rev)
  then show ?thesis using h by simp
qed

lemma strip_first_window_nonempty:
  assumes "t \<noteq> []" "\<not> is_space (hd t)" "1 \<le> e"
  shows "strip (py_slice t 0 e) \<noteq> []"
proof -
  have "py_slice t 0 e = take (min (length t) (nat e)) t"
    using assms(3) by (simp add: py_slice_def py_bound_def)
  moreover have "0 < min (length t) (nat e)" using assms by simp
  ultimately have "hd t \<in> set (py_slice t 0 e)"
    using assms(1) by (cases t) (auto simp: take_Cons')
  then show ?thesis using assms(2) by (auto simp: strip_Nil_iff)
qed

text \<open>
  Whatever the overlap, a text that is longer than a positive \<^verbatim>\<open>chunk_size\<close> after
  trimming never gets past the first iteration of the loop: the first chunk starts with a
  non-blank character, it is appended, and the guard then compares \<open>start\<close> with it.
\<close>

lemma chunk_text_long_raises:
  assumes "1 \<le> chunk_size" "chunk_size < int (length (strip text))"
  shows "chunk_text chunk_size chunk_overlap text = Some (Inl (TypeError le_int_str_message))"
proof -
  let ?t = "strip text"
  have ne: "?t \<noteq> []" using assms by auto
  have hd: "\<not> is_space (hd ?t)" using ne by (rule hd_strip)
  have c: "\<And>e. 1 \<le> e \<Longrightarrow> strip (py_slice ?t 0 e) \<noteq> []"
    using ne hd by (rule strip_first_window_nonempty)
  have "chunk_loop chunk_size chunk_overlap ?t 0 [] = Some (Inl (TypeError le_int_str_message))"
    using assms ne c by (subst chunk_loop.simps) (simp add: Let_def)
  then show ?thesis using assms by (simp add: chunk_text_def Let_def)
qed

lemma strip_long_text: "strip long_text = long_text"
  by code_simp

lemma strip_sample_text: "strip sample_text = sample_text"
  by code_simp

lemma length_sample_text: "length sample_text = 1200"
  by (simp add: sample_text_def length_concat sum_list_replicate)

text \<open>
  Claim C1 (the chunking loop ends within \<open>ceil(L / (chunk_size - overlap)) + 1\<close>
  iterations and returns a finite list, the guard forcing \<open>start = end\<close> when the new
  start does not advance).  With the default configuration (\<open>chunk_size = 500\<close>,
  \<open>overlap = 50\<close>) and a text of 501 letters the loop does not return a list: its first
  iteration appends a chunk, and the guard raises \<^verbatim>\<open>TypeError\<close> instead of choosing
  between \<open>end - overlap\<close> and \<open>end\<close>.
\<close>

theorem chunk_text_long_text_TypeError:
  "length long_text = 501 \<and>
   chunk_text 500 50 long_text = Some (Inl (TypeError le_int_str_message))"
proof -
  have "chunk_text 500 50 long_text = Some (Inl (TypeError le_int_str_message))"
    by (rule chunk_text_long_raises) (simp_all add: strip_long_text, simp_all add: long_text_def)
  then show ?thesis by (simp add: long_text_def)
qed

text \<open>
  Claim C6 (with \<open>chunk_size = 500\<close> and \<open>overlap = 50\<close>, 1200 characters with a period
  about every 100 characters give exactly 3 chunks of at most 500 characters, consecutive
  chunks overlapping).  On such a text the chunker returns no chunk list at all: it
  raises the \<^verbatim>\<open>TypeError\<close> of the guard in its first iteration.
\<close>

theorem chunk_text_sample_text_TypeError:
  "length sample_text = 1200 \<and>
   chunk_text 500 50 sample_text = Some (Inl (TypeError le_int_str_message))"
proof -
  have "chunk_text 500 50 sample_text = Some (Inl (TypeError le_int_str_message))"
    by (rule chunk_text_long_raises) (simp_all add: strip_sample_text length_sample_text)
  then show ?thesis by (simp add: length_sample_text)
qed

text \<open>
  Claim C9 (no element of the returned chunk list is empty or blank).  A text that is
  empty, or blank, is not longer than \<^verbatim>\<open>chunk_size\<close> after trimming, and the early return
  hands it back as the single chunk: the returned list holds the empty string.
\<close>

theorem chunk_text_blank_text_empty_chunk:
  "chunk_text 500 50 [] = Some (Inr [[]]) \<and>
   chunk_text 500 50 [CHR '' '', CHR 0x0A, CHR '' ''] = Some (Inr [[]])"
  by (simp add: chunk_text_def strip_def is_space_def)

section \<open>Properties of the PDF path\<close>

text \<open>A page whose extraction raises leaves the state of the page loop as a page without text does.\<close>

lemma extract_pages_failed_page:
  "extract_pages n (ps @ Inl e # qs) acc = extract_pages n (ps @ Inr [] # qs) acc"
proof (induction ps arbitrary: n acc)
  case Nil
  show ?case by (cases acc) simp
next
  case (Cons p ps)
  show ?case by (cases acc) (simp add: Cons.IH split: sum.splits)
qed

lemma extract_pages_no_text:
  "\<forall>t. Inr t \<in> set pages \<longrightarrow> t = [] \<Longrightarrow> extract_pages n pages acc = acc"
proof (induction pages arbitrary: n acc)
  case Nil
  show ?case by simp
next
  case (Cons p pages)
  then show ?case by (cases acc) (auto split: sum.splits)
qed

lemma extract_pages_grows:
  "set (fst acc) \<subseteq> set (fst (extract_pages n pages acc))"
proof (induction pages arbitrary: n acc)
  case Nil
  show ?case by simp
next
  case (Cons p pages)
  obtain ft pts where acc: "acc = (ft, pts)" by (cases acc)
  show ?case
  proof (cases p)
    case (Inl e)
    then show ?thesis using Cons.IH [of "(ft, pts)" "Suc n"] acc by simp
  next
    case (Inr t)
    show ?thesis
    proof (cases "t = []")
      case True
      then show ?thesis using Cons.IH [of "(ft, pts)" "Suc n"] acc Inr by simp
    next
      case False
      let ?acc' = "(ft @ [CHR 0x0A, CHR 0x0A] @ page_marker n @ [CHR 0x0A] @ t,
                    pts @ [\<lparr>info_page_number = n, info_text = t\<rparr>])"
      have "set (fst ?acc') \<subseteq> set (fst (extract_pages (Suc n) pages ?acc'))"
        by (rule Cons.IH)
      then show ?thesis using acc Inr False by auto
    qed
  qed
qed

text \<open>Every page with text adds its marker, so the accumulated text is not blank.\<close>

lemma extract_pages_some_text:
  "Inr t \<in> set pages \<Longrightarrow> t \<noteq> [] \<Longrightarrow> CHR ''['' \<in> set (fst (extract_pages n pages acc))"
proof (induction pages arbitrary: n acc)
  case Nil
  then show ?case by simp
next
  case (Cons p pages)
  obtain ft pts where acc: "acc = (ft, pts)" by (cases acc)
  show ?case
  proof (cases "p = Inr t")
    case True
    let ?acc' = "(ft @ [CHR 0x0A, CHR 0x0A] @ page_marker n @ [CHR 0x0A] @ t,
                  pts @ [\<lparr>info_page_number = n, info_text = t\<rparr>])"
    have "CHR ''['' \<in> set (fst ?acc')" by (simp add: page_marker_def)
    then have "CHR ''['' \<in> set (fst (extract_pages (Suc n) pages ?acc'))"
      using extract_pages_grows [of ?acc' "Suc n" pages] by blast
    then show ?thesis using True Cons.prems acc by simp
  next
    case False
    then have "Inr t \<in> set pages" using Cons.prems by simp
    then have "\<And>a. CHR ''['' \<in> set (fst (extract_pages (Suc n) pages a))"
      using Cons.IH Cons.prems by blast
    then show ?thesis using acc by (cases p) (simp_all)
  qed
qed

lemma extract_pages_blank_iff:
  "strip (fst (extract_pages n pages ([], []))) = [] \<longleftrightarrow> (\<forall>t. Inr t \<in> set pages \<longrightarrow> t = [])"
proof
  assume s: "strip (fst (extract_pages n pages ([], []))) = []"
  show "\<forall>t. Inr t \<in> set pages \<longrightarrow> t = []"
  proof (intro allI impI, rule ccontr)
    fix t
    assume "Inr t \<in> set pages" "t \<noteq> []"
    then have "CHR ''['' \<in> set (fst (extract_pages n pages ([], [])))"
      by (rule extract_pages_some_text)
    then have "is_space CHR ''[''" using s by (simp add: strip_Nil_iff)
    then show False by (simp add: is_space_def)
  qed
next
  assume "\<forall>t. Inr t \<in> set pages \<longrightarrow> t = []"
  then have "extract_pages n pages ([], []) = ([], [])" by (rule extract_pages_no_text)
  then show "strip (fst (extract_pages n pages ([], []))) = []" by (simp add: strip_def)
qed

lemma chunk_text_positive_size:
  assumes "1 \<le> chunk_size"
  shows "chunk_text chunk_size chunk_overlap text = Some (Inr [strip text])
         \<or> chunk_text chunk_size chunk_overlap text = Some (Inl (TypeError le_int_str_message))"
proof (cases "int (length (strip text)) \<le> chunk_size")
  case True
  then show ?thesis by (simp add: chunk_text_def)
next
  case False
  then have "chunk_size < int (length (strip text))" by simp
  with assms show ?thesis by (simp add: chunk_text_long_raises)
qed

lemma process_pdf_file_empty_iff:
  assumes "1 \<le> chunk_size"
  shows "process_pdf_file chunk_size chunk_overlap True (Inr pages) filename = Some (Inr [])
         \<longleftrightarrow> strip (fst (extract_pages 1 pages ([], []))) = []"
proof (cases "strip (fst (extract_pages 1 pages ([], []))) = []")
  case True
  obtain ft pts where e: "extract_pages 1 pages ([], []) = (ft, pts)"
    by (cases "extract_pages 1 pages ([], [])")
  then show ?thesis using True by (simp add: process_pdf_file_def)
next
  case False
  obtain ft pts where e: "extract_pages 1 pages ([], []) = (ft, pts)"
    by (cases "extract_pages 1 pages ([], [])")
  have "process_pdf_file chunk_size chunk_overlap True (Inr pages) filename \<noteq> Some (Inr [])"
    using chunk_text_positive_size [OF assms, of chunk_overlap "strip ft"] False e
    by (auto simp: process_pdf_file_def)
  then show ?thesis using False by simp
qed

text \<open>
  A page whose \<^verbatim>\<open>extract_text()\<close> raises has the effect of a page without text, whatever
  pages come before and after it: the failure is caught inside the page loop.
\<close>

lemma process_pdf_file_failed_page:
  "process_pdf_file chunk_size chunk_overlap True (Inr (ps @ Inl e # qs)) filename
     = process_pdf_file chunk_size chunk_overlap True (Inr (ps @ Inr [] # qs)) filename"
proof -
  have l: "length (ps @ Inl e # qs) = length (ps @ Inr [] # qs)" by simp
  show ?thesis
    unfolding process_pdf_file_def sum.case extract_pages_failed_page l by (rule refl)
qed

text \<open>
  For a positive \<^verbatim>\<open>chunk_size\<close>, the empty chunk list (the value on which the upload
  handler answers "Failed to process document") is returned exactly when no page yields a
  non-empty string.  The test is on the string as extracted, not on the trimmed string:
  a page of blanks counts as text.
\<close>

lemma process_pdf_file_empty_list_iff:
  assumes "1 \<le> chunk_size"
  shows "process_pdf_file chunk_size chunk_overlap True (Inr pages) filename = Some (Inr [])
           \<longleftrightarrow> (\<forall>t. Inr t \<in> set pages \<longrightarrow> t = [])"
  using assms by (simp add: process_pdf_file_empty_iff extract_pages_blank_iff)

text \<open>
  Claim C8 (a page whose text extraction fails is skipped without aborting; a document
  that yields no usable text after all pages are processed is a hard failure reported to
  the caller).  A document whose only page holds a space and a line feed has no usable
  text, yet it is not reported as a failure: the page text is a non-empty string, so the
  page marker is added to the accumulated text, the blank test of
  \<^verbatim>\<open>if not full_text.strip()\<close> sees the marker, and the document is returned as one chunk
  whose content is the marker \<^verbatim>\<open>[Page 1]\<close>.  A document whose pages all raise does return
  the empty list.
\<close>

theorem process_pdf_file_blank_page_marker_chunk:
  "strip (fst (extract_pages 1 blank_pages ([], []))) = ''[Page 1]''
   \<and> process_pdf_file 500 50 True (Inr blank_pages) ''a.pdf''
       = Some (Inr [\<lparr>chunk_index = 0, chunk_content = ''[Page 1]'',
                     chunk_page_number = Some 1, meta_filename = ''a.pdf'',
                     meta_total_pages = Some 1\<rparr>])
   \<and> process_pdf_file 500 50 True (Inr failing_pages) ''a.pdf'' = Some (Inr [])"
proof -
  have "strip (fst (extract_pages 1 blank_pages ([], []))) = ''[Page 1]''"
    by code_simp
  moreover have "process_pdf_file 500 50 True (Inr blank_pages) ''a.pdf''
       = Some (Inr [\<lparr>chunk_index = 0, chunk_content = ''[Page 1]'',
                     chunk_page_number = Some 1, meta_filename = ''a.pdf'',
                     meta_total_pages = Some 1\<rparr>])"
    by code_simp
  moreover have "process_pdf_file 500 50 True (Inr failing_pages) ''a.pdf'' = Some (Inr [])"
    by code_simp
  ultimately show ?thesis by simp
qed

text \<open>
  The run on three pages of which the second is unreadable: the two readable pages make
  one chunk, tagged with page 1, and the page count is 3.
\<close>

lemma process_pdf_file_mixed_pages:
  "process_pdf_file 500 50 True (Inr mixed_pages) ''a.pdf''
     = Some (Inr [\<lparr>chunk_index = 0,
                   chunk_content = ''[Page 1]'' @ [CHR 0x0A] @ ''Hello'' @ [CHR 0x0A, CHR 0x0A]
                                   @ ''[Page 3]'' @ [CHR 0x0A] @ ''World'',
                   chunk_page_number = Some 1, meta_filename = ''a.pdf'',
                   meta_total_pages = Some 3\<rparr>])"
  by code_simp

section \<open>Properties of the context optimizer\<close>

lemma count_tokens_nonneg: "0 \<le> count_tokens self text"
  by (simp add: count_tokens_def)






lemma recent_messages_3: "recent_messages messages 3 = drop (length messages - 3) messages"
proof -
  have "nat (int (length messages) - 3) = length messages - 3" by arith
  then show ?thesis by (simp add: recent_messages_def slice_from_def py_bound_def)
qed

lemma older_messages_3: "older_messages messages 3 = take (length messages - 3) messages"
proof -
  have "nat (int (length messages) - 3) = length messages - 3" by arith
  then show ?thesis by (simp add: older_messages_def slice_to_def py_bound_def)
qed


lemma compress_context_within:
  "count_tokens self context \<le> max_tok \<Longrightarrow> compress_context self truncate_at context max_tok = Inr context"
  by (simp add: compress_context_def)

lemma fst_select_messages:
  "fst (select_messages self chat messages additional_context p) = messages
   \<or> fst (select_messages self chat messages additional_context p) = recent_messages messages p"
  by (simp add: select_messages_def Let_def)

lemma optimize_context_selected:
  assumes "optimize_context self chat truncate_at messages additional_context p = Inr (sel, ctx, tot)"
  shows "sel = messages \<or> sel = recent_messages messages p"
proof (cases "messages = []")
  case True
  then show ?thesis using assms by (simp add: optimize_context_def)
next
  case False
  then have "sel = fst (select_messages self chat messages additional_context p)"
    using assms
    by (auto simp: optimize_context_def split: prod.splits if_splits sum.splits)
  then show ?thesis using fst_select_messages by metis
qed




text \<open>
  Claim C5 as stated fails when nothing is available: with a budget of 30 the three
  recent messages use it up, the older message (10 tokens) exceeds the available 0 tokens,
  and the code keeps the recent messages with an empty summary; no summary is made.
\<close>

theorem optimize_context_no_budget_counterexample:
  "four_messages \<noteq> []
   \<and> available_tokens (manager 30) four_messages None 3 = 0
   \<and> count_messages_tokens (manager 30) (older_messages four_messages 3) = 10
   \<and> optimize_context (manager 30) chat_fixed truncate_at_exact four_messages None 3
      = Inr ([user_message ''m2'' 2, user_message ''m3'' 3, user_message ''m4'' 4], [], 30)"
  by (simp add: optimize_context_def select_messages_def recent_messages_def older_messages_def
      recent_tokens_def additional_tokens_def available_tokens_def slice_from_def slice_to_def
      py_bound_def manager_def four_messages_def user_message_def count_tokens_def
      char_tokens_def Let_def)

text \<open>
  Claim C5, amended: for a non-empty list of messages and \<^verbatim>\<open>preserve_recent = 3\<close>,
  whenever the available budget is positive and the older messages exceed it, the
  summarization path is taken: the selected messages are the last three, and the context
  string starts with the non-empty prefix summary built from the summary of the older
  messages, followed by the additional context.  And on every path that returns, the
  last three input messages (all of them when there are fewer) end the selected messages,
  verbatim and in order.
\<close>

theorem optimize_context_summarizes:
  assumes "messages \<noteq> []"
  shows "(0 < available_tokens self messages additional_context 3
          \<and> available_tokens self messages additional_context 3
              < count_messages_tokens self (older_messages messages 3)
          \<longrightarrow> (\<exists>tot.
                optimize_context self chat truncate_at messages additional_context 3 =
                  Inr (drop (length messages - 3) messages,
                       ''Previous conversation summary: ''
                         @ summarize_messages chat (take (length messages - 3) messages)
                             (available_tokens self messages additional_context 3 div 2)
                         @ [CHR 0x0A, CHR 0x0A] @ or_empty additional_context,
                       tot)))
         \<and> (\<forall>sel ctx tot.
               optimize_context self chat truncate_at messages additional_context 3 =
                 Inr (sel, ctx, tot)
               \<longrightarrow> suffix (drop (length messages - 3) messages) sel)"
proof (intro conjI impI allI)
  assume a: "0 < available_tokens self messages additional_context 3
             \<and> available_tokens self messages additional_context 3
                 < count_messages_tokens self (older_messages messages 3)"
  let ?av = "available_tokens self messages additional_context 3"
  let ?summary = "summarize_messages chat (older_messages messages 3) (?av div 2)"
  have older: "older_messages messages 3 \<noteq> []"
  proof
    assume "older_messages messages 3 = []"
    then have "count_messages_tokens self (older_messages messages 3) = 0" by simp
    then show False using a by arith
  qed
  have sel: "select_messages self chat messages additional_context 3 =
               (recent_messages messages 3,
                ''Previous conversation summary: '' @ ?summary @ [CHR 0x0A, CHR 0x0A],
                recent_tokens self messages 3 + count_tokens self ?summary
                  + additional_tokens self additional_context)"
    using a older by (simp add: select_messages_def Let_def)
  have fits: "truthy additional_context \<Longrightarrow>
                count_tokens self (or_empty additional_context)
                  \<le> max_tokens self - count_messages_tokens self (recent_messages messages 3)"
    using a by (simp add: available_tokens_def additional_tokens_def recent_tokens_def)
  have "\<exists>tot. optimize_context self chat truncate_at messages additional_context 3 =
          Inr (recent_messages messages 3,
               (''Previous conversation summary: '' @ ?summary @ [CHR 0x0A, CHR 0x0A])
                 @ or_empty additional_context, tot)"
    using assms sel fits
    by (simp add: optimize_context_def compress_context_within)
  then show "\<exists>tot.
          optimize_context self chat truncate_at messages additional_context 3 =
            Inr (drop (length messages - 3) messages,
                 ''Previous conversation summary: ''
                   @ summarize_messages chat (take (length messages - 3) messages) (?av div 2)
                   @ [CHR 0x0A, CHR 0x0A] @ or_empty additional_context,
                 tot)"
    by (simp add: recent_messages_3 older_messages_3)
next
  fix sel ctx tot
  assume "optimize_context self chat truncate_at messages additional_context 3 = Inr (sel, ctx, tot)"
  then have "sel = messages \<or> sel = recent_messages messages 3"
    by (rule optimize_context_selected)
  then show "suffix (drop (length messages - 3) messages) sel"
    by (auto simp: recent_messages_3 suffix_drop)
qed

text \<open>
  With a budget of 35, five tokens are available and the older message counts ten: the
  summary comes from the fallback, the language model being down.
\<close>

theorem optimize_context_summarizes_witness:
  "four_messages \<noteq> []
   \<and> 0 < available_tokens (manager 35) four_messages None 3
   \<and> available_tokens (manager 35) four_messages None 3
       < count_messages_tokens (manager 35) (older_messages four_messages 3)
   \<and> optimize_context (manager 35) chat_down truncate_at_exact four_messages None 3 =
       Inr ([user_message ''m2'' 2, user_message ''m3'' 3, user_message ''m4'' 4],
            ''Previous conversation summary: Earlier conversation covered: m1...''
              @ [CHR 0x0A, CHR 0x0A],
            65)
   \<and> suffix [user_message ''m2'' 2, user_message ''m3'' 3, user_message ''m4'' 4]
        [user_message ''m2'' 2, user_message ''m3'' 3, user_message ''m4'' 4]"
proof -
  have n: "four_messages \<noteq> []" by (simp add: four_messages_def)
  have a: "available_tokens (manager 35) four_messages None 3 = 5"
    by (simp add: available_tokens_def recent_tokens_def additional_tokens_def
        recent_messages_def slice_from_def py_bound_def manager_def four_messages_def
        user_message_def count_tokens_def char_tokens_def)
  have o: "count_messages_tokens (manager 35) (older_messages four_messages 3) = 10"
    by (simp add: older_messages_def slice_to_def py_bound_def manager_def four_messages_def
        user_message_def count_tokens_def char_tokens_def)
  have ev: "optimize_context (manager 35) chat_down truncate_at_exact four_messages None 3 =
       Inr ([user_message ''m2'' 2, user_message ''m3'' 3, user_message ''m4'' 4],
            ''Previous conversation summary: Earlier conversation covered: m1...''
              @ [CHR 0x0A, CHR 0x0A],
            65)"
    by (simp add: optimize_context_def select_messages_def recent_messages_def
        older_messages_def recent_tokens_def additional_tokens_def available_tokens_def
        slice_from_def slice_to_def py_bound_def manager_def four_messages_def user_message_def
        count_tokens_def char_tokens_def summarize_messages_def chat_down_def Let_def)
  have "suffix (drop (length four_messages - 3) four_messages)
          [user_message ''m2'' 2, user_message ''m3'' 3, user_message ''m4'' 4]"
    using optimize_context_summarizes [OF n, of "manager 35" None chat_down truncate_at_exact] ev
    by blast
  then show ?thesis using n a o ev by (simp add: four_messages_def)
qed

text \<open>
  Claim C10 (an empty message list returns the empty list, the additional context
  unchanged, or the empty string when there is none, and a total of 0, whatever the size
  of the additional context).
\<close>

theorem optimize_context_empty:
  "optimize_context self chat truncate_at [] additional_context preserve_recent =
     Inr ([], or_empty additional_context, 0)"
  by (simp add: optimize_context_def)

section \<open>Properties of the retrieval coordinator\<close>

lemma format_hits_scores:
  "format_hits hs = Inr rs \<Longrightarrow>
     map relevance_score rs = map (\<lambda>h. get_or (vector_distance h) (get_or (text_match h) 0)) hs
     \<and> map text_match_score rs = map (\<lambda>h. get_or (text_match h) 0) hs"
proof (induction hs arbitrary: rs)
  case Nil
  then show ?case by simp
next
  case (Cons h hs)
  then show ?case
    by (auto simp: format_hit_def split: sum.splits)
qed


lemma semantic_params:
  "map_of (build_search_params str_float query SEMANTIC max_results semantic_weight
             document_filter emb) ''q'' = Some (PStr ''*'')
   \<and> map_of (build_search_params str_float query SEMANTIC max_results semantic_weight
               document_filter emb) ''vector_query'' =
       Some (PStr (''embedding:(['' @ join '','' (map str_float emb) @ ''], k:''
                   @ str_int max_results @ '')''))"
  by (simp add: build_search_params_def update_conv' Let_def vector_query_text_def)

lemma hybrid_search_calls:
  "snd (hybrid_search embeddings_create documents_search str_float query strategy max_results
          keyword_weight semantic_weight document_filter) =
     (case embeddings_create query of
        Inl e \<Rightarrow> [EmbeddingsCreate query]
      | Inr emb \<Rightarrow>
          [EmbeddingsCreate query,
           DocumentsSearch (build_search_params str_float query strategy max_results
                              semantic_weight document_filter emb)])"
  by (simp add: hybrid_search_def hybrid_search_body_def Let_def split: sum.splits prod.splits)

lemma hybrid_search_results:
  "fst (hybrid_search embeddings_create documents_search str_float query strategy max_results
          keyword_weight semantic_weight document_filter) =
     (case embeddings_create query of
        Inl e \<Rightarrow> Inr []
      | Inr emb \<Rightarrow>
          (case documents_search (build_search_params str_float query strategy max_results
                                    semantic_weight document_filter emb) of
             Inl e \<Rightarrow> Inr []
           | Inr resp \<Rightarrow>
               (case format_hits (get_or (hits resp) []) of
                  Inl e \<Rightarrow> Inr []
                | Inr rs \<Rightarrow> Inr rs)))"
  by (simp add: hybrid_search_def hybrid_search_body_def Let_def split: sum.splits prod.splits)





text \<open>
  A semantic search whose collaborators answer with well-formed hits: one query goes to
  the index, with \<^verbatim>\<open>q = "*"\<close> and a \<^verbatim>\<open>vector_query\<close> over the query embedding with
  \<^verbatim>\<open>k = max_results\<close>; there is one result per hit, in the order of the index, and its
  \<^verbatim>\<open>relevance_score\<close> is the \<^verbatim>\<open>vector_distance\<close> of the hit, unchanged (the
  \<^verbatim>\<open>text_match\<close>, or 0, of a hit without distance).
\<close>

lemma hybrid_search_semantic_run:
  assumes "embeddings_create query = Inr emb"
    and "documents_search (build_search_params str_float query SEMANTIC max_results
                             semantic_weight document_filter emb) = Inr resp"
    and "format_hits (get_or (hits resp) []) = Inr rs"
  shows "hybrid_search embeddings_create documents_search str_float query SEMANTIC
           max_results keyword_weight semantic_weight document_filter =
           (Inr rs,
            [EmbeddingsCreate query,
             DocumentsSearch (build_search_params str_float query SEMANTIC max_results
                                semantic_weight document_filter emb)])"
    and "map_of (build_search_params str_float query SEMANTIC max_results semantic_weight
                   document_filter emb) ''q'' = Some (PStr ''*'')"
    and "map_of (build_search_params str_float query SEMANTIC max_results semantic_weight
                   document_filter emb) ''vector_query'' =
           Some (PStr (''embedding:(['' @ join '','' (map str_float emb) @ ''], k:''
                       @ str_int max_results @ '')''))"
    and "length rs = length (get_or (hits resp) [])"
    and "map relevance_score rs =
           map (\<lambda>h. get_or (vector_distance h) (get_or (text_match h) 0))
             (get_or (hits resp) [])"
proof -
  show "hybrid_search embeddings_create documents_search str_float query SEMANTIC
           max_results keyword_weight semantic_weight document_filter =
           (Inr rs,
            [EmbeddingsCreate query,
             DocumentsSearch (build_search_params str_float query SEMANTIC max_results
                                semantic_weight document_filter emb)])"
    using assms by (simp add: prod_eq_iff hybrid_search_calls hybrid_search_results)
  show m: "map relevance_score rs =
           map (\<lambda>h. get_or (vector_distance h) (get_or (text_match h) 0))
             (get_or (hits resp) [])"
    using format_hits_scores [OF assms(3)] by simp
  show "length rs = length (get_or (hits resp) [])"
    using arg_cong [OF m, of length] by simp
qed (simp_all add: semantic_params)

text \<open>
  Claim C3 (a semantic search issues a wildcard query with a nearest-neighbour vector
  query with \<^verbatim>\<open>k = max_results\<close>; a closer hit gets a higher \<^verbatim>\<open>relevance_score\<close>; the
  results are in descending order of \<^verbatim>\<open>relevance_score\<close>).  The query is as claimed, the
  scores are not: the distance of a hit is copied into \<^verbatim>\<open>relevance_score\<close> as it is.  With
  an index that returns a hit at distance 0.1 and then a hit at distance 0.5, the results
  have the scores 0.1 and 0.5: the nearer hit has the lower score, and the sequence
  ascends.
\<close>

theorem hybrid_search_semantic_distance_as_score:
  "hybrid_search embed_ok index_semantic str_float_sample ''q'' SEMANTIC 10 (1 / 2) (1 / 2) None =
     (Inr semantic_results,
      [EmbeddingsCreate ''q'',
       DocumentsSearch
         [(''q'', PStr ''*''), (''query_by'', PStr ''content''), (''per_page'', PInt 10),
          (''include_fields'',
           PStr ''id,document_id,document_name,content,chunk_index,page_number''),
          (''vector_query'', PStr ''embedding:([0.25,0.5], k:10)'')]])
   \<and> map vector_distance semantic_hits = [Some (1 / 10), Some (1 / 2)]
   \<and> map relevance_score semantic_results = [1 / 10, 1 / 2]
   \<and> relevance_score (semantic_results ! 0) < relevance_score (semantic_results ! 1)"
proof -
  have p: "build_search_params str_float_sample ''q'' SEMANTIC 10 (1 / 2) None [1 / 4, 1 / 2] =
             [(''q'', PStr ''*''), (''query_by'', PStr ''content''), (''per_page'', PInt 10),
              (''include_fields'',
               PStr ''id,document_id,document_name,content,chunk_index,page_number''),
              (''vector_query'', PStr ''embedding:([0.25,0.5], k:10)'')]"
    by (simp add: build_search_params_def vector_query_text_def str_float_sample_def str_int_def
        str_nat.simps digit_char_def Let_def)
  have "fst (hybrid_search embed_ok index_semantic str_float_sample ''q'' SEMANTIC 10 (1 / 2)
               (1 / 2) None) = Inr semantic_results"
    by (simp add: hybrid_search_results embed_ok_def index_semantic_def semantic_hits_def
        semantic_results_def sample_document_def format_hit_def getitem_def get_or_def)
  moreover have "snd (hybrid_search embed_ok index_semantic str_float_sample ''q'' SEMANTIC 10
                        (1 / 2) (1 / 2) None) =
       [EmbeddingsCreate ''q'',
        DocumentsSearch
          [(''q'', PStr ''*''), (''query_by'', PStr ''content''), (''per_page'', PInt 10),
           (''include_fields'',
            PStr ''id,document_id,document_name,content,chunk_index,page_number''),
           (''vector_query'', PStr ''embedding:([0.25,0.5], k:10)'')]]"
    using p by (simp add: hybrid_search_calls embed_ok_def)
  moreover have "map relevance_score semantic_results = [1 / 10, 1 / 2]"
    by (simp add: semantic_results_def)
  moreover have "relevance_score (semantic_results ! 0) < relevance_score (semantic_results ! 1)"
    by (simp add: semantic_results_def)
  ultimately show ?thesis by (simp add: prod_eq_iff semantic_hits_def)
qed

text \<open>
  Claim C7 (a failing collaborator gives the empty sequence, and \<^verbatim>\<open>hybrid_search\<close> never
  raises).  For every strategy and input the outcome is a list, never an exception; it is
  the empty list when the embedding call raises, and when the index query raises.
\<close>

theorem hybrid_search_failure_empty:
  "(\<exists>rs. fst (hybrid_search embeddings_create documents_search str_float query strategy
                max_results keyword_weight semantic_weight document_filter) = Inr rs)
   \<and> ((\<exists>e. embeddings_create query = Inl e)
        \<longrightarrow> fst (hybrid_search embeddings_create documents_search str_float query strategy
                   max_results keyword_weight semantic_weight document_filter) = Inr [])
   \<and> (\<forall>emb. embeddings_create query = Inr emb
          \<longrightarrow> (\<exists>e. documents_search (build_search_params str_float query strategy max_results
                                        semantic_weight document_filter emb) = Inl e)
          \<longrightarrow> fst (hybrid_search embeddings_create documents_search str_float query strategy
                     max_results keyword_weight semantic_weight document_filter) = Inr [])"
  by (auto simp: hybrid_search_results split: sum.splits)

text \<open>A run with the embedding service down, and one with the index down.\<close>

theorem hybrid_search_failure_empty_witness:
  "embed_down ''q'' = Inl (ExternalError ''embedding service unavailable'')
   \<and> fst (hybrid_search embed_down index_keyword str_float_sample ''q'' HYBRID 10 (1 / 2) (1 / 2)
            None) = Inr []
   \<and> embed_ok ''q'' = Inr [1 / 4, 1 / 2]
   \<and> index_down (build_search_params str_float_sample ''q'' HYBRID 10 (1 / 2) None [1 / 4, 1 / 2])
       = Inl (ExternalError ''index unavailable'')
   \<and> fst (hybrid_search embed_ok index_down str_float_sample ''q'' HYBRID 10 (1 / 2) (1 / 2)
            None) = Inr []"
proof -
  have d: "embed_down ''q'' = Inl (ExternalError ''embedding service unavailable'')"
    by (simp add: embed_down_def)
  have e: "embed_ok ''q'' = Inr [1 / 4, 1 / 2]" by (simp add: embed_ok_def)
  have i: "index_down (build_search_params str_float_sample ''q'' HYBRID 10 (1 / 2) None
                         [1 / 4, 1 / 2]) = Inl (ExternalError ''index unavailable'')"
    by (simp add: index_down_def)
  have "fst (hybrid_search embed_down index_keyword str_float_sample ''q'' HYBRID 10 (1 / 2)
               (1 / 2) None) = Inr []"
    using d hybrid_search_failure_empty [where embeddings_create = embed_down
        and documents_search = index_keyword and str_float = str_float_sample and query = "''q''"
        and strategy = HYBRID and max_results = 10 and keyword_weight = "1 / 2"
        and semantic_weight = "1 / 2" and document_filter = None]
    by blast
  moreover have "fst (hybrid_search embed_ok index_down str_float_sample ''q'' HYBRID 10 (1 / 2)
                        (1 / 2) None) = Inr []"
    using e i hybrid_search_failure_empty [where embeddings_create = embed_ok
        and documents_search = index_down and str_float = str_float_sample and query = "''q''"
        and strategy = HYBRID and max_results = 10 and keyword_weight = "1 / 2"
        and semantic_weight = "1 / 2" and document_filter = None]
    by blast
  ultimately show ?thesis using d e i by simp
qed

end
